theory Spec2Isabelle
  imports Main "HOL-Library.Multiset"
begin

section \<open>Exceptions\<close>

text \<open>
  Every exception class the modelled code raises, or lets escape, is one constructor.
  \<open>BugException\<close> is the plain \<^verbatim>\<open>Exception("Bug: ...")\<close> of the embedded-SQL backend.
\<close>

datatype error =
    ISOperationNotAllowed
  | ISNotStored
  | NotImplementedError
  | ValueError
  | KeyError
  | AttributeError
  | AssertionError
  | ValidationError
  | OverflowError
  | BugException

section \<open>Time series and their metadata\<close>

text \<open>
  \<^verbatim>\<open>InfraSysBaseModelWithIdentifers.id\<close> is \<^verbatim>\<open>Optional[int]\<close>. Instants and durations are
  whole seconds, samples are integers: the code only moves them around.
  \<open>ts_class\<close> is the run-time class of the object, which the backends test with
  \<^verbatim>\<open>isinstance\<close>.
\<close>

datatype ts_class = SingleTimeSeries | OtherTimeSeries

record time_series =
  ts_id :: "int option"
  ts_class :: ts_class
  variable_name :: string
  initial_time :: int
  resolution :: int
  data :: "int list"
  normalization :: "string option"

datatype md_class = SingleTimeSeriesMetadata | OtherTimeSeriesMetadata

record time_series_metadata =
  time_series_id :: int
  md_class :: md_class
  md_variable_name :: string
  md_initial_time :: int
  md_resolution :: int
  md_length :: int
  md_normalization :: "string option"
  user_attributes :: "(string \<times> string) list"

text \<open>
  Modelled from the spec: \<^verbatim>\<open>TimeSeriesMetadata.from_data\<close> (module time_series_models) is
  not among the sources. "Computes metadata via the type's own metadata constructor":
  the record copies the series' id, name, time axis and normalization and keeps the user
  attributes. The id field of the metadata is an integer, so a series without id is
  rejected by the model validation.
\<close>

definition from_data :: "time_series \<Rightarrow> (string \<times> string) list \<Rightarrow> error + time_series_metadata" where
  "from_data ts attrs =
     (case ts_id ts of
        None \<Rightarrow> Inl ValidationError
      | Some i \<Rightarrow> Inr \<lparr>time_series_id = i,
                      md_class = (case ts_class ts of SingleTimeSeries \<Rightarrow> SingleTimeSeriesMetadata
                                  | OtherTimeSeries \<Rightarrow> OtherTimeSeriesMetadata),
                      md_variable_name = variable_name ts,
                      md_initial_time = initial_time ts,
                      md_resolution = resolution ts,
                      md_length = int (length (data ts)),
                      md_normalization = normalization ts,
                      user_attributes = attrs\<rparr>)"

text \<open>
  Modelled from the spec: \<^verbatim>\<open>SingleTimeSeriesMetadata.get_range\<close> (module time_series_models)
  is not among the sources. "If start_time is provided, result begins at that instant; if
  length is provided, exactly that many samples are returned; both default to the
  metadata's own initial_time/length." The result is the pair (index, length) the backends
  unpack.
\<close>

definition get_range :: "time_series_metadata \<Rightarrow> int option \<Rightarrow> int option \<Rightarrow> error + (int \<times> int)" where
  "get_range md start_time len =
     (let index = (case start_time of None \<Rightarrow> 0
                   | Some t \<Rightarrow> (t - md_initial_time md) div md_resolution md)
      in Inr (index, (case len of None \<Rightarrow> md_length md - index | Some n \<Rightarrow> n)))"

text \<open>Python's \<^verbatim>\<open>xs[i:j]\<close>: negative bounds count from the end, all bounds are clamped.\<close>

definition py_clamp :: "int \<Rightarrow> int \<Rightarrow> nat" where
  "py_clamp n i = (if i < 0 then nat (max 0 (n + i)) else nat (min n i))"

definition py_slice :: "'a list \<Rightarrow> int \<Rightarrow> int \<Rightarrow> 'a list" where
  "py_slice xs i j =
     (let n = int (length xs); a = py_clamp n i; b = py_clamp n j
      in take (b - a) (drop a xs))"

section \<open>The in-memory backend\<close>

text \<open>
  \<^verbatim>\<open>InMemoryTimeSeriesStorage._arrays\<close> is a dict from physical id to series; a Python dict
  keeps insertion order, which \<^verbatim>\<open>serialize\<close> walks, so it is an association list whose
  keys occur once.
\<close>

type_synonym arrays = "(int \<times> time_series) list"

definition dict_pop :: "('k \<times> 'v) list \<Rightarrow> 'k \<Rightarrow> ('k \<times> 'v) list" where
  "dict_pop d k = filter (\<lambda>kv. fst kv \<noteq> k) d"

definition mem_add_time_series :: "arrays \<Rightarrow> time_series_metadata \<Rightarrow> time_series \<Rightarrow> arrays" where
  "mem_add_time_series arrays md ts =
     (if time_series_id md \<notin> fst ` set arrays
      then arrays @ [(time_series_id md, ts)]
      else arrays)"

definition mem_remove_time_series :: "arrays \<Rightarrow> int \<Rightarrow> error + arrays" where
  "mem_remove_time_series arrays i =
     (case map_of arrays i of
        None \<Rightarrow> Inl ISNotStored
      | Some ts \<Rightarrow> Inr (dict_pop arrays i))"

definition mem_get_single_time_series ::
    "arrays \<Rightarrow> time_series_metadata \<Rightarrow> int option \<Rightarrow> int option \<Rightarrow> error + time_series" where
  "mem_get_single_time_series arrays md start_time len =
     (case map_of arrays (time_series_id md) of
        None \<Rightarrow> Inl KeyError
      | Some base_ts \<Rightarrow>
          if ts_class base_ts \<noteq> SingleTimeSeries then Inl AssertionError
          else if start_time = None \<and> len = None then Inr base_ts
          else (case get_range md start_time len of
                  Inl e \<Rightarrow> Inl e
                | Inr (index, n) \<Rightarrow>
                    Inr \<lparr>ts_id = Some (time_series_id md),
                         ts_class = SingleTimeSeries,
                         variable_name = variable_name base_ts,
                         initial_time = (case start_time of None \<Rightarrow> initial_time base_ts
                                         | Some t \<Rightarrow> t),
                         resolution = resolution base_ts,
                         data = py_slice (data base_ts) index (index + n),
                         normalization = md_normalization md\<rparr>))"

definition mem_get_time_series ::
    "arrays \<Rightarrow> time_series_metadata \<Rightarrow> int option \<Rightarrow> int option \<Rightarrow> error + time_series" where
  "mem_get_time_series arrays md start_time len =
     (case map_of arrays (time_series_id md) of
        None \<Rightarrow> Inl ISNotStored
      | Some ts \<Rightarrow>
          if md_class md = SingleTimeSeriesMetadata
          then mem_get_single_time_series arrays md start_time len
          else Inl NotImplementedError)"

section \<open>The embedded-SQL backend\<close>

text \<open>
  The backend keeps one table \<^verbatim>\<open>time_series(timestamp, value, id)\<close> in a store of the
  chronify library, which is outside the repository. The store is modelled by the list of
  the table's rows with the plain SQL reading of the three calls the backend makes:
  \<^verbatim>\<open>ingest_table\<close> inserts the rows of the frame, \<^verbatim>\<open>delete_rows\<close> deletes the rows of an
  id, \<^verbatim>\<open>read_raw_query\<close> runs the SELECT that the backend writes out. The id column is
  filled from \<^verbatim>\<open>time_series.id\<close>, which may be None.
\<close>

record row =
  row_timestamp :: int
  row_value :: int
  row_id :: "int option"

type_synonym table = "row list"

text \<open>
  Modelled from the spec: \<^verbatim>\<open>SingleTimeSeries.make_timestamps\<close> is not among the sources.
  "Start time, resolution, length define the implicit time axis; ingestion materializes
  the explicit timestamp column."
\<close>

definition make_timestamps :: "time_series \<Rightarrow> int list" where
  "make_timestamps ts =
     map (\<lambda>k. initial_time ts + int k * resolution ts) [0 ..< length (data ts)]"

definition to_dataframe :: "time_series \<Rightarrow> row list" where
  "to_dataframe ts =
     map (\<lambda>(t, v). \<lparr>row_timestamp = t, row_value = v, row_id = ts_id ts\<rparr>)
         (zip (make_timestamps ts) (data ts))"

definition ingest_table :: "table \<Rightarrow> row list \<Rightarrow> table" where
  "ingest_table tbl df = tbl @ df"

definition delete_rows :: "table \<Rightarrow> int \<Rightarrow> table" where
  "delete_rows tbl i = filter (\<lambda>r. row_id r \<noteq> Some i) tbl"

text \<open>
  \<^verbatim>\<open>SELECT value FROM time_series WHERE id = ? [AND timestamp >= ?] ORDER BY timestamp [LIMIT n]\<close>
\<close>

definition read_raw_query :: "table \<Rightarrow> int \<Rightarrow> int option \<Rightarrow> int option \<Rightarrow> int list" where
  "read_raw_query tbl i start_time limit =
     (let hits = filter (\<lambda>r. row_id r = Some i \<and>
                              (case start_time of None \<Rightarrow> True | Some t \<Rightarrow> t \<le> row_timestamp r)) tbl;
          ordered = map row_value (sort_key row_timestamp hits)
      in case limit of None \<Rightarrow> ordered | Some n \<Rightarrow> take (nat n) ordered)"

definition chronify_add_time_series :: "table \<Rightarrow> time_series_metadata \<Rightarrow> time_series \<Rightarrow> error + table" where
  "chronify_add_time_series tbl md ts =
     (if ts_class ts \<noteq> SingleTimeSeries then Inl NotImplementedError
      else Inr (ingest_table tbl (to_dataframe ts)))"

definition chronify_remove_time_series :: "table \<Rightarrow> int \<Rightarrow> error + table" where
  "chronify_remove_time_series tbl i = Inr (delete_rows tbl i)"

definition chronify_get_single_time_series ::
    "table \<Rightarrow> time_series_metadata \<Rightarrow> int option \<Rightarrow> int option \<Rightarrow> error + time_series" where
  "chronify_get_single_time_series tbl md start_time len =
     (case get_range md start_time len of
        Inl e \<Rightarrow> Inl e
      | Inr (index, required_len) \<Rightarrow>
          (let df = read_raw_query tbl (time_series_id md) start_time
                      (case len of None \<Rightarrow> None | Some n \<Rightarrow> Some required_len)
           in if int (length df) \<noteq> required_len then Inl BugException
              else Inr \<lparr>ts_id = Some (time_series_id md),
                        ts_class = SingleTimeSeries,
                        variable_name = md_variable_name md,
                        initial_time = (case start_time of None \<Rightarrow> md_initial_time md
                                        | Some t \<Rightarrow> t),
                        resolution = md_resolution md,
                        data = df,
                        normalization = md_normalization md\<rparr>))"

definition chronify_get_time_series ::
    "table \<Rightarrow> time_series_metadata \<Rightarrow> int option \<Rightarrow> int option \<Rightarrow> error + time_series" where
  "chronify_get_time_series tbl md start_time len =
     (if md_class md = SingleTimeSeriesMetadata
      then chronify_get_single_time_series tbl md start_time len
      else Inl NotImplementedError)"

section \<open>The columnar-file backend\<close>

text \<open>
  Modelled from the spec: \<^verbatim>\<open>ArrowTimeSeriesStorage\<close> (module arrow_storage) is not among the
  sources. "One directory containing one file per physical time-series id";
  \<^verbatim>\<open>add_time_series\<close> "must be idempotent per physical id", \<^verbatim>\<open>remove_time_series\<close>
  "deletes the physical array; fails with NotStored if absent". The directory is the
  association list of the files it holds, by id.
\<close>

definition arrow_add_time_series :: "arrays \<Rightarrow> time_series_metadata \<Rightarrow> time_series \<Rightarrow> error + arrays" where
  "arrow_add_time_series files md ts =
     (if time_series_id md \<in> fst ` set files then Inr files
      else Inr (files @ [(time_series_id md, ts)]))"

definition arrow_remove_time_series :: "arrays \<Rightarrow> int \<Rightarrow> error + arrays" where
  "arrow_remove_time_series files i =
     (if i \<in> fst ` set files then Inr (dict_pop files i) else Inl ISNotStored)"

section \<open>The backend a manager holds\<close>

text \<open>
  \<^verbatim>\<open>TimeSeriesManager._storage\<close> is one of the three implementations of
  \<^verbatim>\<open>TimeSeriesStorageBase\<close>; a call on it dispatches on the class.
\<close>

datatype storage =
    InMemoryTimeSeriesStorage arrays
  | ArrowTimeSeriesStorage arrays
  | ChronifyTimeSeriesStorage table

fun add_time_series :: "storage \<Rightarrow> time_series_metadata \<Rightarrow> time_series \<Rightarrow> error + storage" where
  "add_time_series (InMemoryTimeSeriesStorage a) md ts =
     Inr (InMemoryTimeSeriesStorage (mem_add_time_series a md ts))"
| "add_time_series (ArrowTimeSeriesStorage f) md ts =
     map_sum (\<lambda>e. e) ArrowTimeSeriesStorage (arrow_add_time_series f md ts)"
| "add_time_series (ChronifyTimeSeriesStorage t) md ts =
     map_sum (\<lambda>e. e) ChronifyTimeSeriesStorage (chronify_add_time_series t md ts)"

fun remove_time_series :: "storage \<Rightarrow> int \<Rightarrow> error + storage" where
  "remove_time_series (InMemoryTimeSeriesStorage a) i =
     map_sum (\<lambda>e. e) InMemoryTimeSeriesStorage (mem_remove_time_series a i)"
| "remove_time_series (ArrowTimeSeriesStorage f) i =
     map_sum (\<lambda>e. e) ArrowTimeSeriesStorage (arrow_remove_time_series f i)"
| "remove_time_series (ChronifyTimeSeriesStorage t) i =
     map_sum (\<lambda>e. e) ChronifyTimeSeriesStorage (chronify_remove_time_series t i)"

text \<open>The physical ids a backend holds an array for.\<close>

fun stored_ids :: "storage \<Rightarrow> int set" where
  "stored_ids (InMemoryTimeSeriesStorage a) = fst ` set a"
| "stored_ids (ArrowTimeSeriesStorage f) = fst ` set f"
| "stored_ids (ChronifyTimeSeriesStorage t) = {i. Some i \<in> row_id ` set t}"

section \<open>Components\<close>

text \<open>
  A component is an object with an optional id, a class name and its declared fields in
  declaration order. A field holds another component, an object with an id that is not a
  component (another \<^verbatim>\<open>InfraSysBaseModelWithIdentifers\<close>, such as a time series; \<open>FModel\<close>
  with its id and class name), a list, a dict, or anything else (numbers, strings, None,
  ...), which has no attribute \<^verbatim>\<open>id\<close>.
\<close>

datatype component =
    Component (comp_id: "int option") (comp_type: string) (comp_fields: "(string \<times> field_value) list")
and field_value =
    FComponent component
  | FModel "int option" string
  | FList "field_value list"
  | FDict "(string \<times> field_value) list"
  | FOther

section \<open>The metadata index\<close>

text \<open>
  Modelled from the spec: \<^verbatim>\<open>TimeSeriesMetadataStore\<close> (module time_series_metadata_store) is
  not among the sources. The table is the list of its rows in insertion order; a row
  stores the owning entity, and the metadata with the physical id, the variable name, the
  type and the attribute bag.
  \<^item> "add(metadata, *entities): inserts one row per entity the series is attached to."
  \<^item> "has_time_series(id)": existence predicate.
  \<^item> "remove(*entities, variable_name?, type?, **attrs): deletes all matching rows,
    returns the set of physical ids touched; fails with NotStored if nothing matched."
  \<^item> "list_missing_time_series(ids): given a set of physical ids just affected by a
    removal, returns the subset with zero remaining metadata references."
  A set is returned as a list without repetitions.
\<close>

record metadata_row =
  row_component_id :: "int option"
  row_component_type :: string
  row_metadata :: time_series_metadata

definition time_series_type_name :: "md_class \<Rightarrow> string" where
  "time_series_type_name c =
     (case c of SingleTimeSeriesMetadata \<Rightarrow> ''SingleTimeSeries''
      | OtherTimeSeriesMetadata \<Rightarrow> ''OtherTimeSeries'')"

definition row_matches ::
    "component list \<Rightarrow> string option \<Rightarrow> string option \<Rightarrow> (string \<times> string) list \<Rightarrow> metadata_row \<Rightarrow> bool" where
  "row_matches components name type attrs r =
     (list_ex (\<lambda>c. comp_id c = row_component_id r) components \<and>
      (case name of None \<Rightarrow> True | Some n \<Rightarrow> md_variable_name (row_metadata r) = n) \<and>
      (case type of None \<Rightarrow> True
       | Some t \<Rightarrow> time_series_type_name (md_class (row_metadata r)) = t) \<and>
      list_all (\<lambda>kv. map_of (user_attributes (row_metadata r)) (fst kv) = Some (snd kv)) attrs)"

definition md_add :: "metadata_row list \<Rightarrow> time_series_metadata \<Rightarrow> component list \<Rightarrow> metadata_row list" where
  "md_add rows md components =
     rows @ map (\<lambda>c. \<lparr>row_component_id = comp_id c, row_component_type = comp_type c,
                      row_metadata = md\<rparr>) components"

definition md_has_time_series :: "metadata_row list \<Rightarrow> int \<Rightarrow> bool" where
  "md_has_time_series rows i = list_ex (\<lambda>r. time_series_id (row_metadata r) = i) rows"

definition md_remove ::
    "metadata_row list \<Rightarrow> component list \<Rightarrow> string option \<Rightarrow> string option \<Rightarrow>
     (string \<times> string) list \<Rightarrow> error + (metadata_row list \<times> int list)" where
  "md_remove rows components name type attrs =
     (let hits = filter (row_matches components name type attrs) rows
      in if hits = [] then Inl ISNotStored
         else Inr (filter (\<lambda>r. \<not> row_matches components name type attrs r) rows,
                   remdups (map (\<lambda>r. time_series_id (row_metadata r)) hits)))"

definition md_list_missing_time_series :: "metadata_row list \<Rightarrow> int list \<Rightarrow> int list" where
  "md_list_missing_time_series rows ids =
     filter (\<lambda>i. \<not> md_has_time_series rows i) (remdups ids)"

section \<open>The storage manager\<close>

text \<open>
  Modelled from the spec: \<^verbatim>\<open>IDManager\<close> (module id_manager) is not among the sources. It
  "issues unique monotonically increasing integer IDs": its state is the next id to
  issue, and \<^verbatim>\<open>get_next_id\<close> returns it and moves on.
\<close>

definition get_next_id :: "int \<Rightarrow> int \<times> int" where
  "get_next_id next_id = (next_id, next_id + 1)"

record time_series_manager =
  read_only :: bool
  storage :: storage
  metadata_store :: "metadata_row list"
  id_manager :: int

text \<open>
  The first argument of \<^verbatim>\<open>add\<close> is whatever object the caller passes; the method tests
  its class.
\<close>

datatype py_object = TimeSeriesData time_series | NotTimeSeriesData

text \<open>
  A method that raises after it has changed some state leaves that state changed: the
  methods of the manager return the exception raised, if any, next to the state they
  leave. \<^verbatim>\<open>add\<close> also returns its first argument, which it may have given an id.
\<close>

definition handle_read_only :: "time_series_manager \<Rightarrow> error option" where
  "handle_read_only m = (if read_only m then Some ISOperationNotAllowed else None)"

definition add ::
    "time_series_manager \<Rightarrow> py_object \<Rightarrow> component list \<Rightarrow> (string \<times> string) list \<Rightarrow>
     error option \<times> time_series_manager \<times> py_object" where
  "add m obj components attrs =
     (case handle_read_only m of
        Some e \<Rightarrow> (Some e, m, obj)
      | None \<Rightarrow>
          if components = [] then (Some ISOperationNotAllowed, m, obj)
          else (case obj of
                  NotTimeSeriesData \<Rightarrow> (Some ValueError, m, obj)
                | TimeSeriesData ts0 \<Rightarrow>
                    (let (ts, idm) =
                           (case ts_id ts0 of
                              None \<Rightarrow> (let (i, idm') = get_next_id (id_manager m)
                                        in (ts0\<lparr>ts_id := Some i\<rparr>, idm'))
                            | Some i \<Rightarrow> (ts0, id_manager m));
                         m1 = m\<lparr>id_manager := idm\<rparr>
                     in case from_data ts attrs of
                          Inl e \<Rightarrow> (Some e, m1, TimeSeriesData ts)
                        | Inr md \<Rightarrow>
                            (case (if \<not> md_has_time_series (metadata_store m1) (time_series_id md)
                                   then add_time_series (storage m1) md ts
                                   else Inr (storage m1)) of
                               Inl e \<Rightarrow> (Some e, m1, TimeSeriesData ts)
                             | Inr st \<Rightarrow>
                                 (None,
                                  m1\<lparr>storage := st,
                                     metadata_store := md_add (metadata_store m1) md components\<rparr>,
                                  TimeSeriesData ts)))))"

text \<open>
  The loop of \<^verbatim>\<open>remove\<close> over the ids to delete. It returns the ids whose deletion
  completed (each one is logged), and stops at the first exception.
\<close>

fun remove_missing :: "storage \<Rightarrow> int list \<Rightarrow> error option \<times> storage \<times> int list" where
  "remove_missing st [] = (None, st, [])"
| "remove_missing st (i # ids) =
     (case remove_time_series st i of
        Inl e \<Rightarrow> (Some e, st, [])
      | Inr st' \<Rightarrow> (case remove_missing st' ids of (r, st'', removed) \<Rightarrow> (r, st'', i # removed)))"

definition remove ::
    "time_series_manager \<Rightarrow> component list \<Rightarrow> string option \<Rightarrow> string \<Rightarrow> (string \<times> string) list \<Rightarrow>
     error option \<times> time_series_manager \<times> int list" where
  "remove m components name time_series_type attrs =
     (case handle_read_only m of
        Some e \<Rightarrow> (Some e, m, [])
      | None \<Rightarrow>
          (case md_remove (metadata_store m) components name (Some time_series_type) attrs of
             Inl e \<Rightarrow> (Some e, m, [])
           | Inr (rows, time_series_ids) \<Rightarrow>
               (let missing_ids = md_list_missing_time_series rows time_series_ids
                in case remove_missing (storage m) missing_ids of
                     (r, st, removed) \<Rightarrow> (r, m\<lparr>metadata_store := rows, storage := st\<rparr>, removed))))"

subsection \<open>Snapshots\<close>

text \<open>
  The descriptor (the argument \<^verbatim>\<open>data\<close>) is a dict from field names to strings. The in-memory backend's
  \<^verbatim>\<open>serialize\<close> opens a columnar store on the destination directory, whose files are
  \<open>dst_files\<close>, and adds every array it holds; files written before an exception stay.
\<close>

type_synonym descriptor = "string \<rightharpoonup> string"

fun serialize_arrays :: "arrays \<Rightarrow> time_series list \<Rightarrow> error option \<times> arrays" where
  "serialize_arrays files [] = (None, files)"
| "serialize_arrays files (ts # rest) =
     (case from_data ts [] of
        Inl e \<Rightarrow> (Some e, files)
      | Inr md \<Rightarrow>
          (case arrow_add_time_series files md ts of
             Inl e \<Rightarrow> (Some e, files)
           | Inr files' \<Rightarrow> serialize_arrays files' rest))"

definition mem_serialize :: "arrays \<Rightarrow> descriptor \<Rightarrow> arrays \<Rightarrow> error option \<times> descriptor \<times> arrays" where
  "mem_serialize arrays descr dst_files =
     (case serialize_arrays dst_files (map snd arrays) of
        (Some e, files) \<Rightarrow> (Some e, descr, files)
      | (None, files) \<Rightarrow>
          (None, descr(''time_series_storage_type'' \<mapsto> ''ArrowTimeSeriesStorage''), files))"

text \<open>
  The keyword arguments of the manager: \<^verbatim>\<open>_process_time_series_kwarg\<close> is only called with
  the five keys of \<^verbatim>\<open>TIME_SERIES_KWARGS\<close>, and the result is tested for truth.
\<close>

datatype kwarg_key =
    time_series_in_memory
  | time_series_read_only
  | time_series_directory
  | time_series_use_chronify
  | time_series_engine_name

datatype kwarg_value = KBool bool | KStr string | KNone

fun TIME_SERIES_KWARGS :: "kwarg_key \<Rightarrow> kwarg_value" where
  "TIME_SERIES_KWARGS time_series_in_memory = KBool False"
| "TIME_SERIES_KWARGS time_series_read_only = KBool False"
| "TIME_SERIES_KWARGS time_series_directory = KNone"
| "TIME_SERIES_KWARGS time_series_use_chronify = KBool False"
| "TIME_SERIES_KWARGS time_series_engine_name = KStr ''duckdb''"

type_synonym kwargs = "kwarg_key \<rightharpoonup> kwarg_value"

definition process_time_series_kwarg :: "kwarg_key \<Rightarrow> kwargs \<Rightarrow> kwarg_value" where
  "process_time_series_kwarg key kw =
     (case kw key of None \<Rightarrow> TIME_SERIES_KWARGS key | Some v \<Rightarrow> v)"

fun truthy :: "kwarg_value \<Rightarrow> bool" where
  "truthy (KBool b) = b"
| "truthy (KStr s) = (s \<noteq> [])"
| "truthy KNone = False"

text \<open>
  The constructors of the backends read files; what they find is not part of the model.
  \<open>storage_source\<close> names the constructor call, and the parameter \<open>open_store\<close> of
  \<^verbatim>\<open>__init__\<close> and \<^verbatim>\<open>deserialize\<close> gives the backend such a call builds.
\<close>

datatype storage_source =
    New_in_memory
  | Chronify_create_with_temp_directory kwarg_value kwarg_value
  | Arrow_create_with_temp_directory kwarg_value
  | Chronify_from_file string string
  | Chronify_from_file_to_tmp_file string string string
  | Arrow_create_with_permanent_directory string
  | Arrow_create_with_temp_directory_copy string

definition manager_init ::
    "(storage_source \<Rightarrow> storage) \<Rightarrow> metadata_row list \<Rightarrow> int \<Rightarrow> storage option \<Rightarrow> kwargs \<Rightarrow>
     time_series_manager" where
  "manager_init open_store con idm given kw =
     \<lparr>read_only = truthy (process_time_series_kwarg time_series_read_only kw),
      storage =
        (case given of
           Some st \<Rightarrow> st
         | None \<Rightarrow>
             if truthy (process_time_series_kwarg time_series_in_memory kw)
             then open_store New_in_memory
             else if truthy (process_time_series_kwarg time_series_use_chronify kw)
             then open_store (Chronify_create_with_temp_directory
                                (process_time_series_kwarg time_series_directory kw)
                                (process_time_series_kwarg time_series_engine_name kw))
             else open_store (Arrow_create_with_temp_directory
                                (process_time_series_kwarg time_series_directory kw))),
      metadata_store = con,
      id_manager = idm\<rparr>"

text \<open>\<^verbatim>\<open>Path(parent_dir) / directory\<close>: an absolute right operand replaces the left one.\<close>

definition path_join :: "string \<Rightarrow> string \<Rightarrow> string" where
  "path_join parent d = (case d of c # cs \<Rightarrow> if c = CHR ''/'' then d else parent @ ''/'' @ d
                         | [] \<Rightarrow> parent)"

definition deserialize ::
    "(storage_source \<Rightarrow> storage) \<Rightarrow> metadata_row list \<Rightarrow> int \<Rightarrow> descriptor \<Rightarrow> string \<Rightarrow> kwargs \<Rightarrow>
     error + time_series_manager" where
  "deserialize open_store con idm descr parent_dir kw =
     (if truthy (process_time_series_kwarg time_series_in_memory kw) then Inl ISOperationNotAllowed
      else case descr ''directory'' of
        None \<Rightarrow> Inl KeyError
      | Some directory \<Rightarrow>
          (let time_series_dir = path_join parent_dir directory
           in case descr ''time_series_storage_type'' of
                None \<Rightarrow> Inl KeyError
              | Some tag \<Rightarrow>
                  if tag = ''ChronifyTimeSeriesStorage'' then
                    (case descr ''filename'' of
                       None \<Rightarrow> Inl KeyError
                     | Some filename \<Rightarrow>
                         (case descr ''engine_name'' of
                            None \<Rightarrow> Inl KeyError
                          | Some engine \<Rightarrow>
                              Inr (manager_init open_store con idm
                                     (Some (open_store
                                        (if truthy (process_time_series_kwarg time_series_read_only kw)
                                         then Chronify_from_file filename engine
                                         else Chronify_from_file_to_tmp_file filename engine
                                                time_series_dir)))
                                     kw)))
                  else if tag = ''ArrowTimeSeriesStorage'' then
                    Inr (manager_init open_store con idm
                           (Some (open_store
                              (if truthy (process_time_series_kwarg time_series_read_only kw)
                               then Arrow_create_with_permanent_directory time_series_dir
                               else Arrow_create_with_temp_directory_copy time_series_dir)))
                           kw)
                  else Inl NotImplementedError))"

section \<open>The association index\<close>

text \<open>
  The table \<^verbatim>\<open>component_associations\<close> is the list of its rows in insertion order. The
  \<^verbatim>\<open>INTEGER PRIMARY KEY\<close> column, which SQLite fills in and no query reads, is left out.
\<close>

record association =
  component_id :: "int option"
  component_type :: string
  attached_component_id :: "int option"
  attached_component_type :: string

definition edge :: "component \<Rightarrow> component \<Rightarrow> association" where
  "edge c a = \<lparr>component_id = comp_id c, component_type = comp_type c,
               attached_component_id = comp_id a, attached_component_type = comp_type a\<rparr>"

text \<open>
  \<^verbatim>\<open>_make_row\<close> reads \<^verbatim>\<open>attached_component.id\<close> and the class name: it works on
  every object that has an id, component or not.
\<close>

fun make_row :: "component \<Rightarrow> field_value \<Rightarrow> error + association" where
  "make_row c (FComponent a) = Inr (edge c a)"
| "make_row c (FModel i n) =
     Inr \<lparr>component_id = comp_id c, component_type = comp_type c,
          attached_component_id = i, attached_component_type = n\<rparr>"
| "make_row c v = Inl AttributeError"

fun list_rows :: "component \<Rightarrow> field_value list \<Rightarrow> error + association list" where
  "list_rows c [] = Inr []"
| "list_rows c (item # items) =
     (case make_row c item of
        Inl e \<Rightarrow> Inl e
      | Inr r \<Rightarrow> (case list_rows c items of Inl e \<Rightarrow> Inl e | Inr rs \<Rightarrow> Inr (r # rs)))"

fun field_rows :: "component \<Rightarrow> field_value \<Rightarrow> error + association list" where
  "field_rows c (FComponent a) = Inr [edge c a]"
| "field_rows c (FList (FComponent a # items)) = list_rows c (FComponent a # items)"
| "field_rows c v = Inr []"

fun fields_rows :: "component \<Rightarrow> (string \<times> field_value) list \<Rightarrow> error + association list" where
  "fields_rows c [] = Inr []"
| "fields_rows c (fv # fvs) =
     (case field_rows c (snd fv) of
        Inl e \<Rightarrow> Inl e
      | Inr rs \<Rightarrow> (case fields_rows c fvs of Inl e \<Rightarrow> Inl e | Inr rs' \<Rightarrow> Inr (rs @ rs')))"

fun components_rows :: "component list \<Rightarrow> error + association list" where
  "components_rows [] = Inr []"
| "components_rows (c # cs) =
     (case fields_rows c (comp_fields c) of
        Inl e \<Rightarrow> Inl e
      | Inr rs \<Rightarrow> (case components_rows cs of Inl e \<Rightarrow> Inl e | Inr rs' \<Rightarrow> Inr (rs @ rs')))"

text \<open>
  sqlite3 binds a Python int to an INTEGER column only if it fits in 64 bits (signed), and
  raises OverflowError otherwise; None is NULL.
\<close>

definition sqlite_integer :: "int option \<Rightarrow> bool" where
  "sqlite_integer v = (case v of None \<Rightarrow> True | Some i \<Rightarrow> - (2 ^ 63) \<le> i \<and> i < 2 ^ 63)"

definition sqlite_row :: "association \<Rightarrow> bool" where
  "sqlite_row r = (sqlite_integer (component_id r) \<and> sqlite_integer (attached_component_id r))"

text \<open>
  \<^verbatim>\<open>_insert_rows\<close>: \<^verbatim>\<open>executemany\<close> inserts the rows one after the other and stops at
  the first one it cannot bind; the \<^verbatim>\<open>finally\<close> clause commits what was inserted.
\<close>

fun insert_rows :: "association list \<Rightarrow> association list \<Rightarrow> error option \<times> association list" where
  "insert_rows tbl [] = (None, tbl)"
| "insert_rows tbl (r # rows) =
     (if sqlite_row r then insert_rows (tbl @ [r]) rows else (Some OverflowError, tbl))"

text \<open>\<^verbatim>\<open>add\<close> returns the exception raised, if any, and the table it leaves.\<close>

definition associations_add ::
    "association list \<Rightarrow> component list \<Rightarrow> error option \<times> association list" where
  "associations_add tbl components =
     (case components_rows components of
        Inl e \<Rightarrow> (Some e, tbl)
      | Inr rows \<Rightarrow> if rows \<noteq> [] then insert_rows tbl rows else (None, tbl))"

definition list_child_components ::
    "association list \<Rightarrow> component \<Rightarrow> string option \<Rightarrow> error + int option list" where
  "list_child_components tbl c component_type_name =
     (case comp_id c of
        None \<Rightarrow> Inl AssertionError
      | Some i \<Rightarrow>
          if \<not> sqlite_integer (Some i) then Inl OverflowError
          else
          Inr (map attached_component_id
                 (filter (\<lambda>r. component_id r = Some i \<and>
                               (case component_type_name of None \<Rightarrow> True
                                | Some t \<Rightarrow> attached_component_type r = t)) tbl)))"

subsection \<open>The edges of entities with well-formed fields\<close>

text \<open>
  Following the words of the specification, read item by item: a field whose value is a
  single sub-entity gives one edge, a field whose value is a non-empty list of
  sub-entities gives one edge for each item of the list (also when a sub-entity occurs in
  it more than once), and every other shape gives no edge.
\<close>

fun is_sub_entity :: "field_value \<Rightarrow> bool" where
  "is_sub_entity (FComponent a) = True"
| "is_sub_entity v = False"

fun sub_entities :: "field_value list \<Rightarrow> component list" where
  "sub_entities [] = []"
| "sub_entities (FComponent a # vs) = a # sub_entities vs"
| "sub_entities (v # vs) = sub_entities vs"

fun spec_field_edges :: "component \<Rightarrow> field_value \<Rightarrow> association list" where
  "spec_field_edges c (FComponent a) = [edge c a]"
| "spec_field_edges c (FList items) =
     (if items \<noteq> [] \<and> list_all is_sub_entity items then map (edge c) (sub_entities items) else [])"
| "spec_field_edges c v = []"

definition spec_edges :: "component list \<Rightarrow> association list" where
  "spec_edges cs = concat (map (\<lambda>c. concat (map (\<lambda>fv. spec_field_edges c (snd fv)) (comp_fields c))) cs)"

text \<open>
  A list field is homogeneous for \<^verbatim>\<open>add\<close>, which looks at its first item only, unless it
  starts with a component and holds something else further on.
\<close>

fun uniform_field :: "field_value \<Rightarrow> bool" where
  "uniform_field (FList (FComponent a # items)) = list_all is_sub_entity items"
| "uniform_field v = True"

definition uniform_component :: "component \<Rightarrow> bool" where
  "uniform_component c = list_all (\<lambda>fv. uniform_field (snd fv)) (comp_fields c)"

section \<open>Example values\<close>

definition example_ts :: time_series where
  "example_ts = \<lparr>ts_id = Some 1, ts_class = SingleTimeSeries, variable_name = ''load'',
                  initial_time = 0, resolution = 60, data = [5, 6, 7], normalization = None\<rparr>"

definition example_md :: time_series_metadata where
  "example_md = \<lparr>time_series_id = 1, md_class = SingleTimeSeriesMetadata,
                  md_variable_name = ''load'', md_initial_time = 0, md_resolution = 60,
                  md_length = 3, md_normalization = None, user_attributes = []\<rparr>"

definition bus :: component where
  "bus = Component (Some 10) ''Bus'' []"

definition generator :: component where
  "generator = Component (Some 11) ''Generator'' [(''bus'', FComponent bus), (''rating'', FOther)]"

definition example_manager :: time_series_manager where
  "example_manager = \<lparr>read_only = False, storage = InMemoryTimeSeriesStorage [],
                       metadata_store = [], id_manager = 1\<rparr>"

text \<open>One array, attached to two components.\<close>

definition shared_manager :: time_series_manager where
  "shared_manager =
     \<lparr>read_only = False, storage = InMemoryTimeSeriesStorage [(1, example_ts)],
      metadata_store =
        [\<lparr>row_component_id = Some 10, row_component_type = ''Bus'', row_metadata = example_md\<rparr>,
         \<lparr>row_component_id = Some 11, row_component_type = ''Generator'',
          row_metadata = example_md\<rparr>],
      id_manager = 2\<rparr>"

definition added_manager :: time_series_manager where
  "added_manager =
     \<lparr>read_only = False, storage = InMemoryTimeSeriesStorage [(1, example_ts)],
      metadata_store =
        [\<lparr>row_component_id = Some 10, row_component_type = ''Bus'', row_metadata = example_md\<rparr>],
      id_manager = 2\<rparr>"

definition last_reference_manager :: time_series_manager where
  "last_reference_manager =
     \<lparr>read_only = False, storage = InMemoryTimeSeriesStorage [(1, example_ts)],
      metadata_store =
        [\<lparr>row_component_id = Some 11, row_component_type = ''Generator'',
          row_metadata = example_md\<rparr>],
      id_manager = 2\<rparr>"

definition read_only_manager :: time_series_manager where
  "read_only_manager = shared_manager\<lparr>read_only := True\<rparr>"

text \<open>Descriptors, and what the backends' constructors find on disk.\<close>

fun example_open_store :: "storage_source \<Rightarrow> storage" where
  "example_open_store New_in_memory = InMemoryTimeSeriesStorage []"
| "example_open_store (Chronify_create_with_temp_directory d e) = ChronifyTimeSeriesStorage []"
| "example_open_store (Arrow_create_with_temp_directory d) = ArrowTimeSeriesStorage []"
| "example_open_store (Chronify_from_file f e) = ChronifyTimeSeriesStorage (to_dataframe example_ts)"
| "example_open_store (Chronify_from_file_to_tmp_file f e d) = ChronifyTimeSeriesStorage (to_dataframe example_ts)"
| "example_open_store (Arrow_create_with_permanent_directory d) = ArrowTimeSeriesStorage [(1, example_ts)]"
| "example_open_store (Arrow_create_with_temp_directory_copy d) = ArrowTimeSeriesStorage [(1, example_ts)]"

definition arrow_descriptor :: descriptor where
  "arrow_descriptor = [''directory'' \<mapsto> ''time_series'',
                       ''time_series_storage_type'' \<mapsto> ''ArrowTimeSeriesStorage'']"

definition chronify_descriptor :: descriptor where
  "chronify_descriptor = [''directory'' \<mapsto> ''time_series'',
                          ''filename'' \<mapsto> ''/snap/ts.db'',
                          ''time_series_storage_type'' \<mapsto> ''ChronifyTimeSeriesStorage'',
                          ''engine_name'' \<mapsto> ''duckdb'']"

definition unknown_descriptor :: descriptor where
  "unknown_descriptor = [''directory'' \<mapsto> ''time_series'',
                         ''time_series_storage_type'' \<mapsto> ''Hdf5TimeSeriesStorage'']"

definition two_arrays :: arrays where
  "two_arrays = [(1, example_ts), (2, example_ts\<lparr>ts_id := Some 2, variable_name := ''wind''\<rparr>)]"

definition bus2 :: component where
  "bus2 = Component (Some 13) ''Bus'' []"

definition substation :: component where
  "substation = Component (Some 12) ''Substation''
     [(''buses'', FList [FComponent bus, FComponent bus2]),
      (''feeder'', FComponent generator),
      (''by_name'', FDict [(''b'', FComponent bus)]),
      (''spare'', FList []),
      (''nested'', FList [FList [FComponent bus]])]"

text \<open>
  A list that names one sub-entity twice, a list that starts with a sub-entity and goes on
  with a time series, and an owner whose id does not fit in 64 bits.
\<close>

definition twice_component :: component where
  "twice_component = Component (Some 15) ''Node'' [(''buses'', FList [FComponent bus, FComponent bus])]"

definition mixed_component :: component where
  "mixed_component =
     Component (Some 14) ''Node'' [(''items'', FList [FComponent bus, FModel (Some 1) ''SingleTimeSeries''])]"

definition huge_component :: component where
  "huge_component = Component (Some (2 ^ 63)) ''Node'' [(''bus'', FComponent bus)]"

text \<open>The index references the arrays 1 and 2, the backend holds only array 2.\<close>

definition drifted_manager :: time_series_manager where
  "drifted_manager =
     \<lparr>read_only = False,
      storage = InMemoryTimeSeriesStorage [(2, example_ts\<lparr>ts_id := Some 2\<rparr>)],
      metadata_store =
        [\<lparr>row_component_id = Some 10, row_component_type = ''Bus'', row_metadata = example_md\<rparr>,
         \<lparr>row_component_id = Some 10, row_component_type = ''Bus'',
          row_metadata = example_md\<lparr>time_series_id := 2\<rparr>\<rparr>],
      id_manager = 3\<rparr>"

definition stale_ts :: time_series where
  "stale_ts = example_ts\<lparr>data := [0, 0]\<rparr>"

section \<open>The backends: removing, adding, reading\<close>

lemma dict_pop_keys: "fst ` set (dict_pop d k) = fst ` set d - {k}"
  by (auto simp: dict_pop_def)

lemma mem_remove_time_series_stored:
  "i \<in> fst ` set a \<Longrightarrow> mem_remove_time_series a i = Inr (dict_pop a i)"
  by (auto simp: mem_remove_time_series_def map_of_eq_None_iff split: option.splits)

lemma mem_remove_time_series_absent:
  "i \<notin> fst ` set a \<Longrightarrow> mem_remove_time_series a i = Inl ISNotStored"
  by (auto simp: mem_remove_time_series_def map_of_eq_None_iff split: option.splits)

lemma chronify_remove_time_series_returns:
  "chronify_remove_time_series t i = Inr (delete_rows t i)"
  by (simp add: chronify_remove_time_series_def)

text \<open>
  C6. Every backend's \<^verbatim>\<open>remove_time_series\<close> deletes the array of a stored id and fails
  with NotStored for an id that is not stored. The in-memory backend does both (the two
  lemmas above). The embedded-SQL backend only forwards the id to the store's
  \<^verbatim>\<open>delete_rows\<close> and has no branch for an absent id: on an empty table the call for id 7
  returns normally, where the in-memory backend raises \<^verbatim>\<open>ISNotStored\<close>.
\<close>

theorem chronify_remove_absent_id_returns:
  "remove_time_series (ChronifyTimeSeriesStorage []) 7 = Inr (ChronifyTimeSeriesStorage []) \<and>
   remove_time_series (InMemoryTimeSeriesStorage []) 7 = Inl ISNotStored"
  by (simp add: chronify_remove_time_series_def delete_rows_def mem_remove_time_series_def)

lemma mem_add_time_series_stored:
  "time_series_id md \<in> fst ` set a \<Longrightarrow> mem_add_time_series a md ts = a"
  by (simp add: mem_add_time_series_def)

lemma mem_add_time_series_twice:
  "mem_add_time_series (mem_add_time_series a md ts) md ts' = mem_add_time_series a md ts"
  by (simp add: mem_add_time_series_def)

lemma chronify_add_time_series_ingests:
  "ts_class ts = SingleTimeSeries \<Longrightarrow>
   chronify_add_time_series t md ts = Inr (t @ to_dataframe ts)"
  by (simp add: chronify_add_time_series_def ingest_table_def)

text \<open>
  C3. Every backend's \<^verbatim>\<open>add_time_series\<close> is a silent no-op for a physical id that is
  already stored. The in-memory backend tests the id first (the lemmas
  \<open>mem_add_time_series_stored\<close> and \<open>mem_add_time_series_twice\<close>). The embedded-SQL backend
  never looks whether the id is stored and ingests the frame on every call: adding the
  series with id 1 a second time ingests its three rows a second time.
\<close>

theorem chronify_add_same_id_twice:
  "chronify_add_time_series [] example_md example_ts =
     Inr [\<lparr>row_timestamp = 0, row_value = 5, row_id = Some 1\<rparr>,
          \<lparr>row_timestamp = 60, row_value = 6, row_id = Some 1\<rparr>,
          \<lparr>row_timestamp = 120, row_value = 7, row_id = Some 1\<rparr>] \<and>
   chronify_add_time_series
     [\<lparr>row_timestamp = 0, row_value = 5, row_id = Some 1\<rparr>,
      \<lparr>row_timestamp = 60, row_value = 6, row_id = Some 1\<rparr>,
      \<lparr>row_timestamp = 120, row_value = 7, row_id = Some 1\<rparr>] example_md example_ts =
     Inr [\<lparr>row_timestamp = 0, row_value = 5, row_id = Some 1\<rparr>,
          \<lparr>row_timestamp = 60, row_value = 6, row_id = Some 1\<rparr>,
          \<lparr>row_timestamp = 120, row_value = 7, row_id = Some 1\<rparr>,
          \<lparr>row_timestamp = 0, row_value = 5, row_id = Some 1\<rparr>,
          \<lparr>row_timestamp = 60, row_value = 6, row_id = Some 1\<rparr>,
          \<lparr>row_timestamp = 120, row_value = 7, row_id = Some 1\<rparr>]"
  by code_simp

lemma chronify_get_single_time_series_length:
  "chronify_get_single_time_series t md st len = Inr ts \<Longrightarrow>
   get_range md st len = Inr (idx, n) \<Longrightarrow> int (length (data ts)) = n"
  by (auto simp: chronify_get_single_time_series_def Let_def split: if_splits)

lemma chronify_get_single_time_series_mismatch:
  "get_range md st len = Inr (idx, n) \<Longrightarrow>
   int (length (read_raw_query t (time_series_id md) st
                  (case len of None \<Rightarrow> None | Some k \<Rightarrow> Some n))) \<noteq> n \<Longrightarrow>
   chronify_get_single_time_series t md st len = Inl BugException"
  by (simp add: chronify_get_single_time_series_def Let_def)

lemma mem_get_single_time_series_slices:
  "map_of a (time_series_id md) = Some base \<Longrightarrow> ts_class base = SingleTimeSeries \<Longrightarrow>
   get_range md st (Some n) = Inr (idx, n) \<Longrightarrow>
   \<exists>ts. mem_get_single_time_series a md st (Some n) = Inr ts \<and>
        data ts = py_slice (data base) idx (idx + n)"
  by (simp add: mem_get_single_time_series_def)

text \<open>
  C2. On every backend \<^verbatim>\<open>get_time_series\<close> with a length n returns exactly n samples, and
  a row count other than the required length is a fatal error, never a truncated result.
  The embedded-SQL backend compares the row count with the required length and raises
  (the lemmas \<open>chronify_get_single_time_series_length\<close> and
  \<open>chronify_get_single_time_series_mismatch\<close>). The in-memory backend returns the slice
  without looking at its length: with three samples stored under id 1 and a metadata
  record of length 5 for that id, the request for 5 samples returns the three stored
  samples, where the embedded-SQL backend holding the same three rows raises.
\<close>

theorem mem_get_time_series_short_array:
  "mem_get_time_series [(1, example_ts)] (example_md\<lparr>md_length := 5\<rparr>) None (Some 5) =
     Inr example_ts \<and>
   length (data example_ts) = 3 \<and>
   chronify_get_time_series
     [\<lparr>row_timestamp = 0, row_value = 5, row_id = Some 1\<rparr>,
      \<lparr>row_timestamp = 60, row_value = 6, row_id = Some 1\<rparr>,
      \<lparr>row_timestamp = 120, row_value = 7, row_id = Some 1\<rparr>]
     (example_md\<lparr>md_length := 5\<rparr>) None (Some 5) = Inl BugException"
  by code_simp

section \<open>The storage manager: removing\<close>

lemma delete_rows_ids:
  "{j. Some j \<in> row_id ` set (delete_rows t i)} = {j. Some j \<in> row_id ` set t} - {i}"
  by (auto simp: delete_rows_def image_iff)

lemma remove_time_series_stored_ids:
  assumes "remove_time_series st i = Inr st'"
  shows "stored_ids st' = stored_ids st - {i}"
proof (cases st)
  case (InMemoryTimeSeriesStorage a)
  with assms have "st' = InMemoryTimeSeriesStorage (dict_pop a i)"
    by (auto simp: mem_remove_time_series_def split: option.splits)
  with InMemoryTimeSeriesStorage show ?thesis by (simp add: dict_pop_keys)
next
  case (ArrowTimeSeriesStorage f)
  with assms have "st' = ArrowTimeSeriesStorage (dict_pop f i)"
    by (auto simp: arrow_remove_time_series_def split: if_splits)
  with ArrowTimeSeriesStorage show ?thesis by (simp add: dict_pop_keys)
next
  case (ChronifyTimeSeriesStorage t)
  with assms have "st' = ChronifyTimeSeriesStorage (delete_rows t i)"
    by (auto simp: chronify_remove_time_series_def)
  with ChronifyTimeSeriesStorage show ?thesis by (simp add: delete_rows_ids)
qed

lemma remove_missing_stored_ids:
  "remove_missing st ids = (r, st', removed) \<Longrightarrow>
   stored_ids st' = stored_ids st - set removed"
proof (induction ids arbitrary: st r st' removed)
  case Nil
  then show ?case by simp
next
  case (Cons i ids)
  show ?case
  proof (cases "remove_time_series st i")
    case (Inl e)
    with Cons.prems show ?thesis by simp
  next
    case (Inr st1)
    obtain r2 st2 rem2 where rec: "remove_missing st1 ids = (r2, st2, rem2)"
      by (cases "remove_missing st1 ids") auto
    from Cons.prems Inr rec have eq: "st' = st2" "removed = i # rem2" by auto
    from Cons.IH[OF rec] remove_time_series_stored_ids[OF Inr] eq
    show ?thesis by auto
  qed
qed

lemma remove_missing_prefix:
  "remove_missing st ids = (r, st', removed) \<Longrightarrow>
   (\<exists>rest. ids = removed @ rest) \<and> (r = None \<longrightarrow> removed = ids)"
proof (induction ids arbitrary: st r st' removed)
  case Nil
  then show ?case by simp
next
  case (Cons i ids)
  show ?case
  proof (cases "remove_time_series st i")
    case (Inl e)
    with Cons.prems have "r = Some e" "removed = []" by auto
    then show ?thesis by simp
  next
    case (Inr st1)
    obtain r2 st2 rem2 where rec: "remove_missing st1 ids = (r2, st2, rem2)"
      by (cases "remove_missing st1 ids") auto
    from Cons.prems Inr rec have eq: "r = r2" "removed = i # rem2" by auto
    from Cons.IH[OF rec] eq show ?thesis by auto
  qed
qed

lemma md_list_missing_distinct: "distinct (md_list_missing_time_series rows ids)"
  by (simp add: md_list_missing_time_series_def)

lemma md_list_missing_set:
  "set (md_list_missing_time_series rows ids) = {i \<in> set ids. \<not> md_has_time_series rows i}"
  by (auto simp: md_list_missing_time_series_def)

lemma md_has_time_series_iff:
  "md_has_time_series rows i \<longleftrightarrow> i \<in> (\<lambda>r. time_series_id (row_metadata r)) ` set rows"
  by (auto simp: md_has_time_series_def list_ex_iff)

lemma md_remove_touched:
  "md_remove rows cs name type attrs = Inr (rows', ids) \<Longrightarrow>
   rows' = filter (\<lambda>r. \<not> row_matches cs name type attrs r) rows \<and>
   set ids = (\<lambda>r. time_series_id (row_metadata r)) ` {r \<in> set rows. row_matches cs name type attrs r}"
  by (auto simp: md_remove_def Let_def split: if_splits)

lemma md_remove_last_reference:
  assumes "md_remove rows cs name type attrs = Inr (rows', ids)"
  shows "{i \<in> set ids. \<not> md_has_time_series rows' i} =
         {i. md_has_time_series rows i \<and> \<not> md_has_time_series rows' i}"
  using md_remove_touched[OF assms]
  by (auto simp: md_has_time_series_iff)

lemma remove_outcome:
  assumes "remove m cs name tt attrs = (r, m', removed)"
  shows "distinct removed \<and>
         stored_ids (storage m') = stored_ids (storage m) - set removed \<and>
         set removed \<subseteq> {i. md_has_time_series (metadata_store m) i \<and>
                              \<not> md_has_time_series (metadata_store m') i} \<and>
         (\<forall>i. md_has_time_series (metadata_store m') i \<longrightarrow> i \<in> stored_ids (storage m) \<longrightarrow>
              i \<in> stored_ids (storage m')) \<and>
         (r = None \<longrightarrow>
            set removed = {i. md_has_time_series (metadata_store m) i \<and>
                              \<not> md_has_time_series (metadata_store m') i})"
proof (cases "read_only m")
  case True
  with assms show ?thesis by (auto simp: remove_def handle_read_only_def)
next
  case False
  show ?thesis
  proof (cases "md_remove (metadata_store m) cs name (Some tt) attrs")
    case (Inl e)
    with False assms show ?thesis by (auto simp: remove_def handle_read_only_def)
  next
    case (Inr p)
    obtain rows ids where p: "p = (rows, ids)" by (cases p)
    let ?missing = "md_list_missing_time_series rows ids"
    obtain r2 st2 rem2 where loop: "remove_missing (storage m) ?missing = (r2, st2, rem2)"
      by (cases "remove_missing (storage m) ?missing") auto
    from assms False Inr p loop
    have res: "r = r2" "m' = m\<lparr>metadata_store := rows, storage := st2\<rparr>" "removed = rem2"
      by (auto simp: remove_def handle_read_only_def Let_def)
    have md: "metadata_store m' = rows" and st: "storage m' = st2" using res by simp_all
    from remove_missing_prefix[OF loop] obtain rest where
      pre: "?missing = rem2 @ rest" and full: "r2 = None \<longrightarrow> rem2 = ?missing" by blast
    have dist: "distinct rem2"
      using md_list_missing_distinct[of rows ids] pre by (metis distinct_append)
    have sub: "set rem2 \<subseteq> set ?missing" using pre by (metis set_append Un_upper1)
    have miss: "set ?missing = {i. md_has_time_series (metadata_store m) i \<and>
                                   \<not> md_has_time_series rows i}"
      using md_remove_last_reference[OF Inr[unfolded p]] by (simp add: md_list_missing_set)
    have ids: "stored_ids st2 = stored_ids (storage m) - set rem2"
      using remove_missing_stored_ids[OF loop] .
    show ?thesis
      using dist sub miss ids full res(1,3) md st by auto
  qed
qed

lemma remove_time_series_succeeds:
  assumes "i \<in> stored_ids st"
  shows "\<exists>st'. remove_time_series st i = Inr st'"
proof (cases st)
  case (InMemoryTimeSeriesStorage a)
  with assms have "map_of a i \<noteq> None" by (simp add: map_of_eq_None_iff)
  with InMemoryTimeSeriesStorage show ?thesis
    by (auto simp: mem_remove_time_series_def)
next
  case (ArrowTimeSeriesStorage f)
  with assms show ?thesis by (simp add: arrow_remove_time_series_def)
next
  case (ChronifyTimeSeriesStorage t)
  then show ?thesis by (simp add: chronify_remove_time_series_def)
qed

lemma remove_missing_all_stored:
  "distinct ids \<Longrightarrow> set ids \<subseteq> stored_ids st \<Longrightarrow> \<exists>st'. remove_missing st ids = (None, st', ids)"
proof (induction ids arbitrary: st)
  case Nil
  then show ?case by simp
next
  case (Cons i ids)
  from Cons.prems have "i \<in> stored_ids st" by simp
  from remove_time_series_succeeds[OF this] obtain st1 where
    st1: "remove_time_series st i = Inr st1" by blast
  from remove_time_series_stored_ids[OF st1] Cons.prems
  have "set ids \<subseteq> stored_ids st1" by auto
  moreover from Cons.prems have "distinct ids" by simp
  ultimately obtain st' where "remove_missing st1 ids = (None, st', ids)"
    using Cons.IH by blast
  with st1 show ?case by simp
qed

lemma md_remove_matches:
  "list_ex (row_matches cs name type attrs) rows \<Longrightarrow>
   \<exists>ids. md_remove rows cs name type attrs =
            Inr (filter (\<lambda>row. \<not> row_matches cs name type attrs row) rows, ids)"
  by (auto simp: md_remove_def Let_def list_ex_iff filter_empty_conv)

lemma md_remove_no_match:
  "\<not> list_ex (row_matches cs name type attrs) rows \<Longrightarrow>
   md_remove rows cs name type attrs = Inl ISNotStored"
  by (auto simp: md_remove_def Let_def list_ex_iff filter_empty_conv)

lemma remove_returns:
  assumes res: "remove m cs name tt attrs = (r, m', removed)"
    and w: "\<not> read_only m"
    and hit: "list_ex (row_matches cs name (Some tt) attrs) (metadata_store m)"
  shows "metadata_store m' =
           filter (\<lambda>row. \<not> row_matches cs name (Some tt) attrs row) (metadata_store m) \<and>
         ({i. md_has_time_series (metadata_store m) i \<and>
              \<not> md_has_time_series (metadata_store m') i} \<subseteq> stored_ids (storage m) \<longrightarrow>
          r = None)"
proof -
  let ?rows = "filter (\<lambda>row. \<not> row_matches cs name (Some tt) attrs row) (metadata_store m)"
  from md_remove_matches[OF hit] obtain ids where
    mr: "md_remove (metadata_store m) cs name (Some tt) attrs = Inr (?rows, ids)" by blast
  let ?missing = "md_list_missing_time_series ?rows ids"
  obtain r2 st2 rem2 where loop: "remove_missing (storage m) ?missing = (r2, st2, rem2)"
    by (cases "remove_missing (storage m) ?missing") auto
  from res w mr loop have eq: "r = r2" "m' = m\<lparr>metadata_store := ?rows, storage := st2\<rparr>"
    by (auto simp: remove_def handle_read_only_def Let_def)
  then have md: "metadata_store m' = ?rows" by simp
  have miss: "set ?missing = {i. md_has_time_series (metadata_store m) i \<and>
                                 \<not> md_has_time_series ?rows i}"
    using md_remove_last_reference[OF mr] by (simp add: md_list_missing_set)
  have "r = None"
    if "{i. md_has_time_series (metadata_store m) i \<and>
            \<not> md_has_time_series (metadata_store m') i} \<subseteq> stored_ids (storage m)"
  proof -
    from that md miss have "set ?missing \<subseteq> stored_ids (storage m)" by simp
    from remove_missing_all_stored[OF md_list_missing_distinct this] loop eq(1)
    show ?thesis by auto
  qed
  with md show ?thesis by blast
qed

lemma remove_refused:
  assumes "remove m cs name tt attrs = (r, m', removed)"
    and "\<not> read_only m"
    and "\<not> list_ex (row_matches cs name (Some tt) attrs) (metadata_store m)"
  shows "r = Some ISNotStored \<and> m' = m \<and> removed = []"
  using assms md_remove_no_match[of cs name "Some tt" attrs "metadata_store m"]
  by (auto simp: remove_def handle_read_only_def)

text \<open>
  C1 (as amended). A call of the manager's \<^verbatim>\<open>remove\<close> returns the exception raised, if
  any, the manager it leaves and the ids whose physical deletion completed. Whatever the
  outcome: no id is deleted twice; the backend loses exactly the deleted ids; every
  deleted id was referenced by a metadata row before the call and is referenced by none
  after it; an array that a surviving metadata row references and that was stored before
  is still stored. When the call returns normally, the deleted ids are all the ids whose
  last reference the call removed. On a writable manager with a matching row the matching
  rows are deleted, and the call returns normally whenever every id whose last reference
  it removes is stored in the backend.
\<close>

theorem remove_reference_counted:
  assumes "remove m cs name tt attrs = (r, m', removed)"
  shows "distinct removed \<and>
         stored_ids (storage m') = stored_ids (storage m) - set removed \<and>
         set removed \<subseteq> {i. md_has_time_series (metadata_store m) i \<and>
                              \<not> md_has_time_series (metadata_store m') i} \<and>
         (\<forall>i. md_has_time_series (metadata_store m') i \<longrightarrow> i \<in> stored_ids (storage m) \<longrightarrow>
              i \<in> stored_ids (storage m')) \<and>
         (r = None \<longrightarrow>
            set removed = {i. md_has_time_series (metadata_store m) i \<and>
                              \<not> md_has_time_series (metadata_store m') i}) \<and>
         (\<not> read_only m \<longrightarrow>
          list_ex (row_matches cs name (Some tt) attrs) (metadata_store m) \<longrightarrow>
            metadata_store m' =
              filter (\<lambda>row. \<not> row_matches cs name (Some tt) attrs row) (metadata_store m) \<and>
            ({i. md_has_time_series (metadata_store m) i \<and>
                 \<not> md_has_time_series (metadata_store m') i} \<subseteq> stored_ids (storage m) \<longrightarrow>
             r = None))"
proof -
  note safe = remove_outcome[OF assms]
  have live: "\<not> read_only m \<longrightarrow>
          list_ex (row_matches cs name (Some tt) attrs) (metadata_store m) \<longrightarrow>
            metadata_store m' =
              filter (\<lambda>row. \<not> row_matches cs name (Some tt) attrs row) (metadata_store m) \<and>
            ({i. md_has_time_series (metadata_store m) i \<and>
                 \<not> md_has_time_series (metadata_store m') i} \<subseteq> stored_ids (storage m) \<longrightarrow>
             r = None)"
    using remove_returns[OF assms] by blast
  from safe live show ?thesis by blast
qed

theorem remove_reference_counted_witness:
  "remove shared_manager [bus] None ''SingleTimeSeries'' [] = (None, last_reference_manager, []) \<and>
   stored_ids (storage last_reference_manager) = stored_ids (storage shared_manager) - set [] \<and>
   remove last_reference_manager [generator] None ''SingleTimeSeries'' [] =
     (None, last_reference_manager\<lparr>metadata_store := [], storage := InMemoryTimeSeriesStorage []\<rparr>, [1]) \<and>
   stored_ids (storage (last_reference_manager\<lparr>metadata_store := [],
                                                 storage := InMemoryTimeSeriesStorage []\<rparr>)) =
     stored_ids (storage last_reference_manager) - set [1]"
proof -
  have a: "remove shared_manager [bus] None ''SingleTimeSeries'' [] = (None, last_reference_manager, [])"
    by code_simp
  have b: "remove last_reference_manager [generator] None ''SingleTimeSeries'' [] =
     (None, last_reference_manager\<lparr>metadata_store := [], storage := InMemoryTimeSeriesStorage []\<rparr>, [1])"
    by code_simp
  note a' = remove_reference_counted[OF a, THEN conjunct2, THEN conjunct1]
  note b' = remove_reference_counted[OF b, THEN conjunct2, THEN conjunct1]
  from a b a' b' show ?thesis by blast
qed

text \<open>
  C1 as stated fails: when the index references an array the backend does not hold, the
  loop of \<^verbatim>\<open>remove\<close> stops at that id with \<^verbatim>\<open>ISNotStored\<close>, after the rows are gone,
  and the arrays of the ids behind it stay stored although their last reference was
  removed.
\<close>

theorem remove_drifted_counterexample:
  "remove drifted_manager [bus] None ''SingleTimeSeries'' [] =
     (Some ISNotStored, drifted_manager\<lparr>metadata_store := []\<rparr>, []) \<and>
   md_has_time_series (metadata_store drifted_manager) 2 \<and>
   \<not> md_has_time_series (metadata_store (drifted_manager\<lparr>metadata_store := []\<rparr>)) 2 \<and>
   2 \<in> stored_ids (storage (drifted_manager\<lparr>metadata_store := []\<rparr>))"
  by (simp add: remove_def handle_read_only_def md_remove_def row_matches_def
                md_list_missing_time_series_def md_has_time_series_def
                mem_remove_time_series_def time_series_type_name_def
                drifted_manager_def example_md_def bus_def)

section \<open>The storage manager: adding\<close>

text \<open>
  C4 (as amended). \<^verbatim>\<open>add\<close> fails with OperationNotAllowed on a read-only manager and
  when no component is given; on a writable manager with at least one component, a first
  argument that is not a time series fails with ValueError. \<^verbatim>\<open>remove\<close> fails with
  OperationNotAllowed on a read-only manager. In each of these cases the manager (metadata
  index, backend, allocator) and the argument are left as they were.
\<close>

theorem add_remove_guards:
  "(read_only m \<longrightarrow> add m obj cs attrs = (Some ISOperationNotAllowed, m, obj)) \<and>
   (cs = [] \<longrightarrow> add m obj cs attrs = (Some ISOperationNotAllowed, m, obj)) \<and>
   (\<not> read_only m \<longrightarrow> cs \<noteq> [] \<longrightarrow>
      add m NotTimeSeriesData cs attrs = (Some ValueError, m, NotTimeSeriesData)) \<and>
   (read_only m \<longrightarrow> remove m cs name tt attrs = (Some ISOperationNotAllowed, m, []))"
  by (simp add: add_def remove_def handle_read_only_def)

theorem add_remove_guards_witness:
  "read_only read_only_manager \<and>
   add read_only_manager (TimeSeriesData example_ts) [bus] [] =
     (Some ISOperationNotAllowed, read_only_manager, TimeSeriesData example_ts) \<and>
   add shared_manager (TimeSeriesData example_ts) [] [] =
     (Some ISOperationNotAllowed, shared_manager, TimeSeriesData example_ts) \<and>
   add shared_manager NotTimeSeriesData [bus] [] = (Some ValueError, shared_manager, NotTimeSeriesData) \<and>
   remove read_only_manager [bus] None ''SingleTimeSeries'' [] =
     (Some ISOperationNotAllowed, read_only_manager, [])"
proof -
  have ro: "read_only read_only_manager"
    by (simp add: read_only_manager_def)
  have rw: "\<not> read_only shared_manager"
    by (simp add: shared_manager_def)
  show ?thesis
    using ro rw
      add_remove_guards[of read_only_manager "TimeSeriesData example_ts" "[bus]" "[]" None
                           "''SingleTimeSeries''"]
      add_remove_guards[of shared_manager "TimeSeriesData example_ts" "[]" "[]" None
                           "''SingleTimeSeries''"]
      add_remove_guards[of shared_manager "TimeSeriesData example_ts" "[bus]" "[]" None
                           "''SingleTimeSeries''"]
    by simp
qed

text \<open>
  C4 as stated fails: on a writable manager, with one component, an argument that is not
  a time series raises ValueError, not OperationNotAllowed.
\<close>

theorem add_not_time_series_counterexample:
  "\<not> read_only shared_manager \<and>
   fst (add shared_manager NotTimeSeriesData [bus] []) = Some ValueError \<and>
   fst (add shared_manager NotTimeSeriesData [bus] []) \<noteq> Some ISOperationNotAllowed"
  by (simp add: add_def handle_read_only_def shared_manager_def)

lemma add_example_manager:
  "add example_manager (TimeSeriesData (example_ts\<lparr>ts_id := None\<rparr>)) [bus] [] =
     (None, added_manager, TimeSeriesData example_ts)"
  by code_simp

lemma add_added_manager:
  "add added_manager (TimeSeriesData example_ts) [generator] [] =
     (None, shared_manager, TimeSeriesData example_ts)"
  by code_simp

text \<open>
  C10. A call of \<^verbatim>\<open>add\<close> that passes the guards (writable manager, at least one
  component, a time series) returns its argument as it leaves it: a series without id has
  got the id the allocator issues next, and the allocator has moved on by one; a series
  with an id is returned with every field as it was, and the allocator is untouched. This
  holds whether or not the rest of the call succeeds.
\<close>

theorem add_assigns_id:
  assumes "\<not> read_only m" and "cs \<noteq> []"
    and "add m (TimeSeriesData ts) cs attrs = (r, m', obj')"
  shows "(case ts_id ts of
            None \<Rightarrow> obj' = TimeSeriesData (ts\<lparr>ts_id := Some (id_manager m)\<rparr>) \<and>
                     id_manager m' = id_manager m + 1
          | Some i \<Rightarrow> obj' = TimeSeriesData ts \<and> id_manager m' = id_manager m)"
  using assms
  by (auto simp: add_def handle_read_only_def get_next_id_def Let_def
           split: option.splits sum.splits if_splits)

theorem add_assigns_id_witness:
  "\<not> read_only example_manager \<and> \<not> read_only added_manager \<and> [bus] \<noteq> [] \<and> [generator] \<noteq> [] \<and>
   add example_manager (TimeSeriesData (example_ts\<lparr>ts_id := None\<rparr>)) [bus] [] =
     (None, added_manager, TimeSeriesData example_ts) \<and>
   TimeSeriesData example_ts =
     TimeSeriesData (example_ts\<lparr>ts_id := None, ts_id := Some (id_manager example_manager)\<rparr>) \<and>
   id_manager added_manager = id_manager example_manager + 1 \<and>
   add added_manager (TimeSeriesData example_ts) [generator] [] =
     (None, shared_manager, TimeSeriesData example_ts) \<and>
   id_manager shared_manager = id_manager added_manager"
proof -
  have w: "\<not> read_only example_manager" "\<not> read_only added_manager"
    by (simp_all add: example_manager_def added_manager_def)
  have ne: "[bus] \<noteq> []" "[generator] \<noteq> []" by simp_all
  have ids: "ts_id (example_ts\<lparr>ts_id := None\<rparr>) = None" "ts_id example_ts = Some 1"
    by (simp_all add: example_ts_def)
  from add_assigns_id[OF w(1) ne(1) add_example_manager]
       add_assigns_id[OF w(2) ne(2) add_added_manager]
       ids add_example_manager add_added_manager w ne
  show ?thesis by simp
qed

text \<open>
  C5. When \<^verbatim>\<open>add\<close> returns normally, the metadata index has gained one row per given
  component, each carrying the metadata built from the (id-carrying) series, whether or
  not the array was stored; the backend is unchanged if a metadata row referenced the
  physical id when the call was made, and otherwise it is the result of the backend's
  \<^verbatim>\<open>add_time_series\<close>.
\<close>

theorem add_stores_new_registers_always:
  assumes "add m (TimeSeriesData ts) cs attrs = (None, m', obj')"
  shows "\<exists>ts' md. obj' = TimeSeriesData ts' \<and> from_data ts' attrs = Inr md \<and>
           metadata_store m' =
             metadata_store m @
             map (\<lambda>c. \<lparr>row_component_id = comp_id c, row_component_type = comp_type c,
                         row_metadata = md\<rparr>) cs \<and>
           (if md_has_time_series (metadata_store m) (time_series_id md)
            then storage m' = storage m
            else add_time_series (storage m) md ts' = Inr (storage m'))"
  using assms
  by (auto simp: add_def handle_read_only_def get_next_id_def Let_def md_add_def
           split: option.splits sum.splits if_splits)

theorem add_stores_new_registers_always_witness:
  "add example_manager (TimeSeriesData (example_ts\<lparr>ts_id := None\<rparr>)) [bus] [] =
     (None, added_manager, TimeSeriesData example_ts) \<and>
   add_time_series (storage example_manager) example_md example_ts = Inr (storage added_manager) \<and>
   add added_manager (TimeSeriesData example_ts) [generator] [] =
     (None, shared_manager, TimeSeriesData example_ts) \<and>
   storage shared_manager = storage added_manager \<and>
   metadata_store shared_manager =
     metadata_store added_manager @
     [\<lparr>row_component_id = Some 11, row_component_type = ''Generator'', row_metadata = example_md\<rparr>]"
proof -
  have md: "from_data example_ts [] = Inr example_md"
    by (simp add: from_data_def example_ts_def example_md_def)
  have has: "md_has_time_series (metadata_store added_manager) (time_series_id example_md)"
    "\<not> md_has_time_series (metadata_store example_manager) (time_series_id example_md)"
    by (simp_all add: md_has_time_series_def added_manager_def example_manager_def)
  have cs: "comp_id generator = Some 11" "comp_type generator = ''Generator''"
    by (simp_all add: generator_def)
  from add_stores_new_registers_always[OF add_example_manager] md has(2)
  have first: "add_time_series (storage example_manager) example_md example_ts =
                 Inr (storage added_manager)"
    by auto
  from add_stores_new_registers_always[OF add_added_manager] md has(1) cs
  have second: "storage shared_manager = storage added_manager"
    "metadata_store shared_manager =
       metadata_store added_manager @
       [\<lparr>row_component_id = Some 11, row_component_type = ''Generator'',
         row_metadata = example_md\<rparr>]"
    by auto
  from first second add_example_manager add_added_manager show ?thesis by simp
qed

section \<open>The storage manager: deserializing\<close>

text \<open>
  C7 (as amended). \<^verbatim>\<open>deserialize\<close> fails with OperationNotAllowed whenever the in-memory
  mode is requested. Otherwise, for a descriptor that has a \<^verbatim>\<open>directory\<close> entry and a
  storage-kind tag: a tag that is neither the embedded-SQL kind nor the columnar-file kind
  fails with NotImplementedError; the columnar-file kind, and the embedded-SQL kind when
  the descriptor also has the \<^verbatim>\<open>filename\<close> and \<^verbatim>\<open>engine_name\<close> entries, give a new manager
  whose backend is built by the constructor chosen by the tag and the read-only flag, with
  that flag as its mode.
\<close>

theorem deserialize_dispatch:
  "(truthy (process_time_series_kwarg time_series_in_memory kw) \<longrightarrow>
      deserialize open_store con idm descr parent_dir kw = Inl ISOperationNotAllowed) \<and>
   (\<not> truthy (process_time_series_kwarg time_series_in_memory kw) \<longrightarrow>
    descr ''directory'' = Some d \<longrightarrow> descr ''time_series_storage_type'' = Some tag \<longrightarrow>
      (tag \<noteq> ''ChronifyTimeSeriesStorage'' \<longrightarrow> tag \<noteq> ''ArrowTimeSeriesStorage'' \<longrightarrow>
         deserialize open_store con idm descr parent_dir kw = Inl NotImplementedError) \<and>
      (tag = ''ArrowTimeSeriesStorage'' \<longrightarrow>
         deserialize open_store con idm descr parent_dir kw =
           Inr \<lparr>read_only = truthy (process_time_series_kwarg time_series_read_only kw),
                storage = open_store
                  (if truthy (process_time_series_kwarg time_series_read_only kw)
                   then Arrow_create_with_permanent_directory (path_join parent_dir d)
                   else Arrow_create_with_temp_directory_copy (path_join parent_dir d)),
                metadata_store = con, id_manager = idm\<rparr>) \<and>
      (tag = ''ChronifyTimeSeriesStorage'' \<longrightarrow>
       descr ''filename'' = Some f \<longrightarrow> descr ''engine_name'' = Some e \<longrightarrow>
         deserialize open_store con idm descr parent_dir kw =
           Inr \<lparr>read_only = truthy (process_time_series_kwarg time_series_read_only kw),
                storage = open_store
                  (if truthy (process_time_series_kwarg time_series_read_only kw)
                   then Chronify_from_file f e
                   else Chronify_from_file_to_tmp_file f e (path_join parent_dir d)),
                metadata_store = con, id_manager = idm\<rparr>))"
  by (simp add: deserialize_def manager_init_def Let_def)

theorem deserialize_dispatch_witness:
  "truthy (process_time_series_kwarg time_series_in_memory [time_series_in_memory \<mapsto> KBool True]) \<and>
   deserialize example_open_store [] 1 arrow_descriptor ''/sys'' [time_series_in_memory \<mapsto> KBool True] =
     Inl ISOperationNotAllowed \<and>
   deserialize example_open_store [] 1 unknown_descriptor ''/sys'' Map.empty = Inl NotImplementedError \<and>
   deserialize example_open_store [] 1 arrow_descriptor ''/sys'' Map.empty =
     Inr \<lparr>read_only = False,
          storage = example_open_store (Arrow_create_with_temp_directory_copy ''/sys/time_series''),
          metadata_store = [], id_manager = 1\<rparr> \<and>
   deserialize example_open_store [] 1 chronify_descriptor ''/sys'' [time_series_read_only \<mapsto> KBool True] =
     Inr \<lparr>read_only = True,
          storage = example_open_store (Chronify_from_file ''/snap/ts.db'' ''duckdb''),
          metadata_store = [], id_manager = 1\<rparr>"
proof -
  have mem: "truthy (process_time_series_kwarg time_series_in_memory [time_series_in_memory \<mapsto> KBool True])"
    and nomem: "\<not> truthy (process_time_series_kwarg time_series_in_memory Map.empty)"
      "\<not> truthy (process_time_series_kwarg time_series_in_memory [time_series_read_only \<mapsto> KBool True])"
    and ro: "truthy (process_time_series_kwarg time_series_read_only [time_series_read_only \<mapsto> KBool True])"
      "\<not> truthy (process_time_series_kwarg time_series_read_only Map.empty)"
    by (simp_all add: process_time_series_kwarg_def)
  have d: "unknown_descriptor ''directory'' = Some ''time_series''"
      "unknown_descriptor ''time_series_storage_type'' = Some ''Hdf5TimeSeriesStorage''"
      "arrow_descriptor ''directory'' = Some ''time_series''"
      "arrow_descriptor ''time_series_storage_type'' = Some ''ArrowTimeSeriesStorage''"
      "chronify_descriptor ''directory'' = Some ''time_series''"
      "chronify_descriptor ''time_series_storage_type'' = Some ''ChronifyTimeSeriesStorage''"
      "chronify_descriptor ''filename'' = Some ''/snap/ts.db''"
      "chronify_descriptor ''engine_name'' = Some ''duckdb''"
    by (simp_all add: unknown_descriptor_def arrow_descriptor_def chronify_descriptor_def)
  have p: "path_join ''/sys'' ''time_series'' = ''/sys/time_series''"
    by (simp add: path_join_def)
  note t = deserialize_dispatch[where open_store = example_open_store and con = "[]" and idm = 1
                                   and parent_dir = "''/sys''"]
  from t[of "[time_series_in_memory \<mapsto> KBool True]" arrow_descriptor] mem
  have 1: "deserialize example_open_store [] 1 arrow_descriptor ''/sys''
             [time_series_in_memory \<mapsto> KBool True] = Inl ISOperationNotAllowed"
    by blast
  from t[of Map.empty unknown_descriptor "''time_series''" "''Hdf5TimeSeriesStorage''"] nomem(1) d(1,2)
  have 2: "deserialize example_open_store [] 1 unknown_descriptor ''/sys'' Map.empty =
             Inl NotImplementedError"
    by simp
  from t[of Map.empty arrow_descriptor "''time_series''" "''ArrowTimeSeriesStorage''"] nomem(1) d(3,4) ro(2) p
  have 3: "deserialize example_open_store [] 1 arrow_descriptor ''/sys'' Map.empty =
     Inr \<lparr>read_only = False,
          storage = example_open_store (Arrow_create_with_temp_directory_copy ''/sys/time_series''),
          metadata_store = [], id_manager = 1\<rparr>"
    by simp
  from t[of "[time_series_read_only \<mapsto> KBool True]" chronify_descriptor "''time_series''"
            "''ChronifyTimeSeriesStorage''" "''/snap/ts.db''" "''duckdb''"] nomem(2) d(5-8) ro(1)
  have 4: "deserialize example_open_store [] 1 chronify_descriptor ''/sys''
             [time_series_read_only \<mapsto> KBool True] =
     Inr \<lparr>read_only = True,
          storage = example_open_store (Chronify_from_file ''/snap/ts.db'' ''duckdb''),
          metadata_store = [], id_manager = 1\<rparr>"
    by simp
  from mem 1 2 3 4 show ?thesis by blast
qed

text \<open>
  C7 as stated fails: a descriptor with an unknown storage-kind tag and no \<^verbatim>\<open>directory\<close>
  entry raises KeyError, since the directory is read before the tag is looked at.
\<close>

theorem deserialize_without_directory_counterexample:
  "[''time_series_storage_type'' \<mapsto> ''Hdf5TimeSeriesStorage''] ''time_series_storage_type'' =
     Some ''Hdf5TimeSeriesStorage'' \<and>
   deserialize example_open_store [] 1 [''time_series_storage_type'' \<mapsto> ''Hdf5TimeSeriesStorage'']
     ''/sys'' Map.empty = Inl KeyError \<and>
   deserialize example_open_store [] 1 [''time_series_storage_type'' \<mapsto> ''Hdf5TimeSeriesStorage'']
     ''/sys'' Map.empty \<noteq> Inl NotImplementedError"
  by (simp add: deserialize_def process_time_series_kwarg_def)

section \<open>The in-memory backend: snapshots\<close>

lemma serialize_arrays_contents:
  "list_all (\<lambda>ts. ts_id ts \<noteq> None) tss \<Longrightarrow>
   \<exists>new. serialize_arrays files tss = (None, files @ new) \<and>
         distinct (map fst new) \<and> fst ` set new \<inter> fst ` set files = {} \<and>
         (\<forall>i. map_of (files @ new) i =
              (case map_of files i of Some old \<Rightarrow> Some old
               | None \<Rightarrow> find (\<lambda>ts. ts_id ts = Some i) tss))"
proof (induction tss arbitrary: files)
  case Nil
  show ?case by (rule exI[of _ "[]"]) (simp split: option.split)
next
  case (Cons ts tss)
  from Cons.prems obtain i where i: "ts_id ts = Some i" by auto
  then obtain md where md: "from_data ts [] = Inr md" "time_series_id md = i"
    by (simp add: from_data_def)
  from Cons.prems have rest: "list_all (\<lambda>ts. ts_id ts \<noteq> None) tss" by simp
  show ?case
  proof (cases "i \<in> fst ` set files")
    case True
    then have add: "arrow_add_time_series files md ts = Inr files"
      using md(2) by (simp add: arrow_add_time_series_def)
    from Cons.IH[OF rest, of files] obtain new where
      n: "serialize_arrays files tss = (None, files @ new)" "distinct (map fst new)"
         "fst ` set new \<inter> fst ` set files = {}"
         "\<And>j. map_of (files @ new) j =
              (case map_of files j of Some old \<Rightarrow> Some old
               | None \<Rightarrow> find (\<lambda>ts. ts_id ts = Some j) tss)"
      by blast
    have run: "serialize_arrays files (ts # tss) = (None, files @ new)"
      using md(1) add n(1) by simp
    have look: "map_of (files @ new) j =
              (case map_of files j of Some old \<Rightarrow> Some old
               | None \<Rightarrow> find (\<lambda>ts. ts_id ts = Some j) (ts # tss))" for j
    proof (cases "map_of files j")
      case None
      with True have "j \<noteq> i" by (auto simp: map_of_eq_None_iff)
      with None n(4)[of j] i show ?thesis by simp
    next
      case (Some old)
      with n(4)[of j] show ?thesis by simp
    qed
    from run n(2,3) look show ?thesis by blast
  next
    case False
    then have add: "arrow_add_time_series files md ts = Inr (files @ [(i, ts)])"
      using md(2) by (simp add: arrow_add_time_series_def)
    from Cons.IH[OF rest, of "files @ [(i, ts)]"] obtain new where
      n: "serialize_arrays (files @ [(i, ts)]) tss = (None, (files @ [(i, ts)]) @ new)"
         "distinct (map fst new)"
         "fst ` set new \<inter> fst ` set (files @ [(i, ts)]) = {}"
         "\<And>j. map_of ((files @ [(i, ts)]) @ new) j =
              (case map_of (files @ [(i, ts)]) j of Some old \<Rightarrow> Some old
               | None \<Rightarrow> find (\<lambda>ts. ts_id ts = Some j) tss)"
      by blast
    let ?new = "(i, ts) # new"
    have run: "serialize_arrays files (ts # tss) = (None, files @ ?new)"
      using md(1) add n(1) by simp
    have d: "distinct (map fst ?new)" using n(2,3) by auto
    have dis: "fst ` set ?new \<inter> fst ` set files = {}" using n(3) False by auto
    have none: "map_of files i = None" using False by (simp add: map_of_eq_None_iff)
    have look: "map_of (files @ ?new) j =
              (case map_of files j of Some old \<Rightarrow> Some old
               | None \<Rightarrow> find (\<lambda>ts. ts_id ts = Some j) (ts # tss))" for j
    proof (cases "map_of files j")
      case None
      show ?thesis
      proof (cases "j = i")
        case True
        with none n(4)[of i] i show ?thesis by (simp add: map_add_def)
      next
        case ne: False
        with None n(4)[of j] i show ?thesis by (simp add: map_add_def)
      qed
    next
      case (Some old)
      with n(4)[of j] show ?thesis by (simp add: map_add_def)
    qed
    from run d dis look show ?thesis by blast
  qed
qed

lemma serialize_arrays_without_id:
  "\<not> list_all (\<lambda>ts. ts_id ts \<noteq> None) tss \<Longrightarrow>
   \<exists>files'. serialize_arrays files tss = (Some ValidationError, files')"
proof (induction tss arbitrary: files)
  case Nil
  then show ?case by simp
next
  case (Cons ts tss)
  show ?case
  proof (cases "ts_id ts")
    case None
    then show ?thesis by (simp add: from_data_def)
  next
    case (Some i)
    then obtain md where md: "from_data ts [] = Inr md" by (simp add: from_data_def)
    obtain files1 where add: "arrow_add_time_series files md ts = Inr files1"
      by (cases "time_series_id md \<in> fst ` set files") (simp_all add: arrow_add_time_series_def)
    from Cons.prems Some have "\<not> list_all (\<lambda>ts. ts_id ts \<noteq> None) tss" by simp
    from Cons.IH[OF this, of files1] md add show ?thesis by simp
  qed
qed

text \<open>
  C8 (as amended). When every array the in-memory backend holds carries an id, its
  \<^verbatim>\<open>serialize\<close> returns normally, records the columnar-file tag
  \<^verbatim>\<open>ArrowTimeSeriesStorage\<close> in the descriptor and leaves the other entries as they were.
  It makes one add per held array (the steps of \<open>serialize_arrays\<close>) to the columnar store
  at the destination, which keeps the files it had and gains files of new, different ids:
  afterwards the file of an id is the one the destination already had for it, and
  otherwise the first held array that carries the id. A held array is thus written unless
  the destination already has a file of its id.
\<close>

theorem mem_serialize_transcodes:
  assumes "list_all (\<lambda>kv. ts_id (snd kv) \<noteq> None) arrays"
  shows "\<exists>new. mem_serialize arrays descr dst_files =
                  (None, descr(''time_series_storage_type'' \<mapsto> ''ArrowTimeSeriesStorage''),
                   dst_files @ new) \<and>
               distinct (map fst new) \<and> fst ` set new \<inter> fst ` set dst_files = {} \<and>
               (\<forall>i. map_of (dst_files @ new) i =
                    (case map_of dst_files i of Some old \<Rightarrow> Some old
                     | None \<Rightarrow> find (\<lambda>ts. ts_id ts = Some i) (map snd arrays)))"
proof -
  from assms have ids: "list_all (\<lambda>ts. ts_id ts \<noteq> None) (map snd arrays)"
    by (simp add: list_all_iff)
  from serialize_arrays_contents[OF ids, of dst_files] obtain new where
    n: "serialize_arrays dst_files (map snd arrays) = (None, dst_files @ new)"
       "distinct (map fst new)" "fst ` set new \<inter> fst ` set dst_files = {}"
       "\<forall>i. map_of (dst_files @ new) i =
              (case map_of dst_files i of Some old \<Rightarrow> Some old
               | None \<Rightarrow> find (\<lambda>ts. ts_id ts = Some i) (map snd arrays))"
    by blast
  from n(1) have "mem_serialize arrays descr dst_files =
                  (None, descr(''time_series_storage_type'' \<mapsto> ''ArrowTimeSeriesStorage''),
                   dst_files @ new)"
    by (simp add: mem_serialize_def)
  with n(2,3,4) show ?thesis by blast
qed

theorem mem_serialize_transcodes_witness:
  "list_all (\<lambda>kv. ts_id (snd kv) \<noteq> None) two_arrays \<and>
   mem_serialize two_arrays Map.empty [] =
     (None, [''time_series_storage_type'' \<mapsto> ''ArrowTimeSeriesStorage''], two_arrays) \<and>
   map_of two_arrays 2 = find (\<lambda>ts. ts_id ts = Some 2) (map snd two_arrays)"
proof -
  have h: "list_all (\<lambda>kv. ts_id (snd kv) \<noteq> None) two_arrays"
    by (simp add: two_arrays_def example_ts_def)
  have direct: "mem_serialize two_arrays Map.empty [] =
     (None, [''time_series_storage_type'' \<mapsto> ''ArrowTimeSeriesStorage''], two_arrays)"
    by (simp add: mem_serialize_def two_arrays_def from_data_def arrow_add_time_series_def
                  example_ts_def)
  from mem_serialize_transcodes[OF h, of Map.empty "[]"] obtain new where
    f: "mem_serialize two_arrays Map.empty [] =
          (None, [''time_series_storage_type'' \<mapsto> ''ArrowTimeSeriesStorage''], [] @ new)"
       "\<forall>i. map_of (([] :: arrays) @ new) i =
              (case map_of ([] :: arrays) i of Some old \<Rightarrow> Some old
               | None \<Rightarrow> find (\<lambda>ts. ts_id ts = Some i) (map snd two_arrays))"
    by (elim exE conjE) (rule that, assumption+)
  from f(1) direct have "new = two_arrays" by simp
  with f(2) have "map_of two_arrays 2 = find (\<lambda>ts. ts_id ts = Some 2) (map snd two_arrays)"
    by simp
  with h direct show ?thesis by blast
qed


text \<open>
  C8 as stated fails: the destination's stale file for id 1 is kept, the held array with
  id 1 is not written, and the call reports success. A held array without id makes the
  call raise before the descriptor is tagged.
\<close>

theorem mem_serialize_stale_file_counterexample:
  "mem_serialize [(1, example_ts)] Map.empty [(1, stale_ts)] =
     (None, [''time_series_storage_type'' \<mapsto> ''ArrowTimeSeriesStorage''], [(1, stale_ts)]) \<and>
   stale_ts \<noteq> example_ts \<and>
   mem_serialize [(1, example_ts\<lparr>ts_id := None\<rparr>)] Map.empty [] =
     (Some ValidationError, Map.empty, [])"
  by (simp add: mem_serialize_def from_data_def arrow_add_time_series_def example_ts_def
                stale_ts_def)

section \<open>The association index: edges\<close>

lemma list_rows_sub_entities:
  "list_all is_sub_entity items \<Longrightarrow> list_rows c items = Inr (map (edge c) (sub_entities items))"
proof (induction items)
  case Nil
  then show ?case by simp
next
  case (Cons v vs)
  then obtain a where "v = FComponent a" by (cases v) auto
  with Cons show ?case by simp
qed

lemma field_rows_uniform:
  assumes "uniform_field v"
  shows "field_rows c v = Inr (spec_field_edges c v)"
proof (cases v)
  case (FList items)
  show ?thesis
  proof (cases items)
    case Nil
    with FList show ?thesis by simp
  next
    case (Cons x xs)
    show ?thesis
    proof (cases x)
      case (FComponent a)
      with Cons FList assms have u: "list_all is_sub_entity (FComponent a # xs)" by simp
      from list_rows_sub_entities[OF u, of c] u FList Cons FComponent show ?thesis by simp
    qed (use FList Cons in simp_all)
  qed
qed simp_all

lemma fields_rows_uniform:
  "list_all (\<lambda>fv. uniform_field (snd fv)) fvs \<Longrightarrow>
   fields_rows c fvs = Inr (concat (map (\<lambda>fv. spec_field_edges c (snd fv)) fvs))"
  by (induction fvs) (simp_all add: field_rows_uniform)

lemma components_rows_uniform:
  "list_all uniform_component cs \<Longrightarrow> components_rows cs = Inr (spec_edges cs)"
  by (induction cs) (simp_all add: spec_edges_def uniform_component_def fields_rows_uniform)

lemma insert_rows_sqlite:
  "list_all sqlite_row rows \<Longrightarrow> insert_rows tbl rows = (None, tbl @ rows)"
  by (induction rows arbitrary: tbl) simp_all

lemma insert_rows_overflow:
  "list_all sqlite_row rows \<Longrightarrow> \<not> sqlite_row r \<Longrightarrow>
   insert_rows tbl (rows @ r # rest) = (Some OverflowError, tbl @ rows)"
  by (induction rows arbitrary: tbl) simp_all

lemma components_rows_error: "components_rows cs = Inl e \<Longrightarrow> associations_add tbl cs = (Some e, tbl)"
  by (simp add: associations_add_def)

text \<open>
  C9 (as amended). For entities in which every list field that starts with a sub-entity
  holds nothing but sub-entities, and whose edges carry ids that fit SQLite's 64-bit
  integers, \<^verbatim>\<open>add\<close> returns normally and appends exactly one edge row for each field
  holding a single sub-entity and one edge row for each item of a field holding a
  non-empty list of sub-entities, in the order of the entities, their fields and the list
  items, and no row for dicts, nested structures, empty lists and other values.
  \<^verbatim>\<open>list_child_components\<close> on the resulting table, for an entity whose id fits, returns
  the attached ids of the rows whose owner has that id, filtered by the type name when one
  is given (as a multiset: the query has no ORDER BY).
\<close>

theorem associations_add_edges:
  assumes "list_all uniform_component cs" and "list_all sqlite_row (spec_edges cs)"
  shows "associations_add tbl cs = (None, tbl @ spec_edges cs) \<and>
         (\<forall>i. comp_id owner = Some i \<longrightarrow> sqlite_integer (Some i) \<longrightarrow>
            (\<exists>ids. list_child_components (tbl @ spec_edges cs) owner t = Inr ids \<and>
                   mset ids =
                     image_mset attached_component_id
                       (filter_mset (\<lambda>r. component_id r = Some i \<and>
                                          (case t of None \<Rightarrow> True
                                           | Some n \<Rightarrow> attached_component_type r = n))
                          (mset (tbl @ spec_edges cs)))))"
proof (intro conjI allI impI)
  from components_rows_uniform[OF assms(1)] insert_rows_sqlite[OF assms(2), of tbl]
  show "associations_add tbl cs = (None, tbl @ spec_edges cs)"
    by (simp add: associations_add_def)
next
  fix i assume "comp_id owner = Some i" and "sqlite_integer (Some i)"
  then show "\<exists>ids. list_child_components (tbl @ spec_edges cs) owner t = Inr ids \<and>
             mset ids =
               image_mset attached_component_id
                 (filter_mset (\<lambda>r. component_id r = Some i \<and>
                                    (case t of None \<Rightarrow> True | Some n \<Rightarrow> attached_component_type r = n))
                    (mset (tbl @ spec_edges cs)))"
    by (simp add: list_child_components_def flip: mset_filter mset_map)
qed

theorem associations_add_edges_witness:
  "list_all uniform_component [substation, generator, bus] \<and>
   list_all sqlite_row (spec_edges [substation, generator, bus]) \<and>
   associations_add [] [substation, generator, bus] =
     (None, [edge substation bus, edge substation bus2, edge substation generator,
             edge generator bus]) \<and>
   comp_id substation = Some 12 \<and> sqlite_integer (Some 12) \<and>
   list_child_components
     [edge substation bus, edge substation bus2, edge substation generator, edge generator bus]
     substation (Some ''Bus'') = Inr [Some 10, Some 13]"
proof -
  have h: "list_all uniform_component [substation, generator, bus]"
    by (simp add: uniform_component_def substation_def generator_def bus_def)
  have se: "spec_edges [substation, generator, bus] =
      [edge substation bus, edge substation bus2, edge substation generator, edge generator bus]"
    by (simp add: spec_edges_def substation_def generator_def bus_def)
  have q: "list_all sqlite_row (spec_edges [substation, generator, bus])"
    unfolding se
    by (simp add: sqlite_row_def sqlite_integer_def edge_def substation_def generator_def
                  bus_def bus2_def)
  have o: "comp_id substation = Some 12" "sqlite_integer (Some 12)"
    by (simp_all add: substation_def sqlite_integer_def)
  from associations_add_edges[OF h q, of "[]" substation "Some ''Bus''", THEN conjunct1] se
  have a: "associations_add [] [substation, generator, bus] =
      (None, [edge substation bus, edge substation bus2, edge substation generator,
              edge generator bus])"
    by simp
  have l: "list_child_components
     [edge substation bus, edge substation bus2, edge substation generator, edge generator bus]
     substation (Some ''Bus'') = Inr [Some 10, Some 13]"
    by (simp add: list_child_components_def sqlite_integer_def edge_def substation_def
                  generator_def bus_def bus2_def)
  from h q a o l show ?thesis by blast
qed

text \<open>
  C9 as stated fails. A list that names the same sub-entity twice gives two rows for the
  one (owner, attachee) pair. A list that starts with a sub-entity is taken for a list of
  sub-entities: rows are inserted for all its items, also for a time series in it. An id
  that does not fit in 64 bits makes \<^verbatim>\<open>add\<close> raise OverflowError without inserting the
  edge.
\<close>

theorem associations_add_counterexample:
  "associations_add [] [twice_component] =
     (None, [edge twice_component bus, edge twice_component bus]) \<and>
   associations_add [] [mixed_component] =
     (None, [edge mixed_component bus,
             \<lparr>component_id = Some 14, component_type = ''Node'',
              attached_component_id = Some 1, attached_component_type = ''SingleTimeSeries''\<rparr>]) \<and>
   comp_fields huge_component = [(''bus'', FComponent bus)] \<and>
   associations_add [] [huge_component] = (Some OverflowError, [])"
  by (simp add: associations_add_def twice_component_def mixed_component_def
                huge_component_def sqlite_row_def sqlite_integer_def edge_def bus_def)

end
